theory Spec2Isabelle
  imports Main
begin

section \<open>Storage pool client of the Cloud NetApp Files API\<close>

text \<open>
  A shallow embedding of \<^verbatim>\<open>googlecloudsdk/api_lib/netapp/storage_pools/client.py\<close>:
  the classes \<^verbatim>\<open>StoragePoolsClient\<close> and \<^verbatim>\<open>AlphaStoragePoolsAdapter\<close>.
  Messages are records whose optional fields are \<open>option\<close> values (a protorpc field
  that holds \<^verbatim>\<open>None\<close> is unset). Message objects that the client mutates live in an
  explicit store, so that returning the object that was passed in differs from returning
  a copy. Everything a method does beyond returning a value is recorded in a \<open>world\<close>:
  the requests sent to the remote service, the warnings logged, the progress messages
  shown and the time slept.
\<close>

subsection \<open>Messages\<close>

type_synonym LabelsValue = "(string \<times> string) list"

text \<open>
  The \<^verbatim>\<open>StoragePool\<close> message. The source reads and writes five of its fields; all
  further fields of the generated message class are the extension \<open>more\<close> of the
  record scheme.
\<close>

record StoragePool =
  sp_name :: "string option"
  sp_serviceLevel :: "string option"
  sp_capacityGib :: "int option"
  sp_description :: "string option"
  sp_labels :: "LabelsValue option"

text \<open>
  A parsed resource reference, given by the results of the three accessors the source
  calls on it: \<^verbatim>\<open>RelativeName()\<close>, \<^verbatim>\<open>Name()\<close> and \<^verbatim>\<open>Parent().RelativeName()\<close>.
\<close>

record Resource =
  RelativeName :: string
  Name :: string
  Parent_RelativeName :: string

text \<open>The long-running operation message returned by a mutating request.\<close>

record Operation =
  op_name :: string

record 'z NetappProjectsLocationsStoragePoolsCreateRequest =
  create_parent :: string
  create_storagePoolId :: string
  create_storagePool :: "'z StoragePool_scheme"

record NetappProjectsLocationsStoragePoolsDeleteRequest =
  delete_name :: string

record NetappProjectsLocationsStoragePoolsGetRequest =
  get_name :: string

record 'z NetappProjectsLocationsStoragePoolsPatchRequest =
  patch_storagePool :: "'z StoragePool_scheme"
  patch_name :: string
  patch_updateMask :: string

record NetappProjectsLocationsStoragePoolsListRequest =
  list_parent :: string
  list_pageToken :: "string option"

record 'z ListStoragePoolsResponse =
  storagePools :: "'z StoragePool_scheme list"
  nextPageToken :: "string option"
  unreachable :: "string list"

subsection \<open>Errors and results\<close>

datatype ReleaseTrack = ALPHA | BETA | GA

type_synonym Payload = string
type_synonym ErrorInfo = string

datatype error =
    ValueError string
  | KeyError ReleaseTrack
  | InvalidResourceException string
  | OperationError ErrorInfo
  | TimeoutError

text \<open>
  Modelled from the spec: the status of a long-running operation as the poll primitive
  reports it (the poller class \<^verbatim>\<open>waiter.CloudOperationPollerNoResources\<close> is not part
  of the verified sources). A tagged union of pending, done with a payload, and failed
  with the error detail.
\<close>

datatype OperationStatus = Pending | Done Payload | Failed ErrorInfo

text \<open>What create, delete and update return: the accepted operation or the payload.\<close>

datatype returned = Accepted Operation | Resolved Payload

subsection \<open>The world: store, remote calls, log\<close>

type_synonym ref = nat

datatype 'z call =
    CreateCall "'z NetappProjectsLocationsStoragePoolsCreateRequest"
  | DeleteCall NetappProjectsLocationsStoragePoolsDeleteRequest
  | GetCall NetappProjectsLocationsStoragePoolsGetRequest
  | PatchCall "'z NetappProjectsLocationsStoragePoolsPatchRequest"
  | ListCall NetappProjectsLocationsStoragePoolsListRequest
  | OperationsGetCall string

record 'z world =
  heap :: "ref \<Rightarrow> 'z StoragePool_scheme"
  next_ref :: ref
  sent :: "'z call list"
  warnings :: "string list"
  progress :: "string list"
  clock :: nat

text \<open>
  Modelled from the spec: the constants of the operation waiter (\<^verbatim>\<open>waiter.WaitFor\<close> is
  not part of the verified sources, and the spec leaves the values open): the maximum
  wait window, the first sleep interval, the factor by which the interval grows and the
  bound on the interval, in milliseconds.
\<close>

record WaitConfig =
  max_wait_ms :: nat
  sleep_ms :: nat
  exponential_sleep_multiplier :: nat
  wait_ceiling_ms :: nat

text \<open>
  The collaborators that are not part of the verified sources are parameters: the stubs of
  the generated API client (each answers a request message), the status that the
  operations service reports for an operation name at the \<open>k\<close>-th poll of a wait, the
  resource registry, the constant \<^verbatim>\<open>OPERATIONS_COLLECTION\<close>, the waiter's constants, and
  the unset state of the further fields of a new \<^verbatim>\<open>StoragePool\<close> message. The stubs
  are taken on the path where the service answers.
\<close>

record 'z env =
  OPERATIONS_COLLECTION :: string
  ParseRelativeName :: "string \<Rightarrow> string \<Rightarrow> error + Resource"
  storagePools_Create :: "'z NetappProjectsLocationsStoragePoolsCreateRequest \<Rightarrow> Operation"
  storagePools_Delete :: "NetappProjectsLocationsStoragePoolsDeleteRequest \<Rightarrow> Operation"
  storagePools_Get :: "NetappProjectsLocationsStoragePoolsGetRequest \<Rightarrow> 'z StoragePool_scheme"
  storagePools_Patch :: "'z NetappProjectsLocationsStoragePoolsPatchRequest \<Rightarrow> Operation"
  storagePools_List :: "NetappProjectsLocationsStoragePoolsListRequest \<Rightarrow> 'z ListStoragePoolsResponse"
  operations_Get :: "string \<Rightarrow> nat \<Rightarrow> OperationStatus"
  wait_config :: WaitConfig
  unset_fields :: 'z

definition send :: "'z call \<Rightarrow> 'z world \<Rightarrow> 'z world" where
  "send c w = w\<lparr>sent := sent w @ [c]\<rparr>"

definition log_warning :: "string \<Rightarrow> 'z world \<Rightarrow> 'z world" where
  "log_warning msg w = w\<lparr>warnings := warnings w @ [msg]\<rparr>"

definition sleep :: "nat \<Rightarrow> 'z world \<Rightarrow> 'z world" where
  "sleep ms w = w\<lparr>clock := clock w + ms\<rparr>"

definition update_message ::
  "ref \<Rightarrow> ('z StoragePool_scheme \<Rightarrow> 'z StoragePool_scheme) \<Rightarrow> 'z world \<Rightarrow> 'z world" where
  "update_message r f w = w\<lparr>heap := (heap w)(r := f (heap w r))\<rparr>"

subsection \<open>AlphaStoragePoolsAdapter\<close>

text \<open>
  \<^verbatim>\<open>ParseUpdatedStoragePoolConfig(self, storagepool_config, description=None,
  labels=None, capacity=None)\<close>: the three assignments are guarded, the argument is
  returned.
\<close>

definition Adapter_ParseUpdatedStoragePoolConfig ::
  "ref \<Rightarrow> string option \<Rightarrow> LabelsValue option \<Rightarrow> int option \<Rightarrow> 'z world \<Rightarrow> ref \<times> 'z world" where
  "Adapter_ParseUpdatedStoragePoolConfig storagepool_config description labels capacity w =
     (let w1 = (if capacity \<noteq> None
                then update_message storagepool_config (\<lambda>m. m\<lparr>sp_capacityGib := capacity\<rparr>) w
                else w);
          w2 = (if description \<noteq> None
                then update_message storagepool_config (\<lambda>m. m\<lparr>sp_description := description\<rparr>) w1
                else w1);
          w3 = (if labels \<noteq> None
                then update_message storagepool_config (\<lambda>m. m\<lparr>sp_labels := labels\<rparr>) w2
                else w2)
      in (storagepool_config, w3))"

text \<open>\<^verbatim>\<open>UpdateStoragePool(self, storagepool_ref, storagepool_config, update_mask)\<close>\<close>

definition Adapter_UpdateStoragePool ::
  "'z env \<Rightarrow> Resource \<Rightarrow> ref \<Rightarrow> string \<Rightarrow> 'z world \<Rightarrow> Operation \<times> 'z world" where
  "Adapter_UpdateStoragePool e storagepool_ref storagepool_config update_mask w =
     (let update_request =
            \<lparr>patch_storagePool = heap w storagepool_config,
             patch_name = RelativeName storagepool_ref,
             patch_updateMask = update_mask\<rparr>;
          update_op = storagePools_Patch e update_request
      in (update_op, send (PatchCall update_request) w))"

subsection \<open>StoragePoolsClient\<close>




text \<open>
  \<^verbatim>\<open>ParseStoragePoolConfig\<close>: a new message, then five unconditional assignments.
\<close>

definition new_StoragePool :: "'z env \<Rightarrow> 'z world \<Rightarrow> ref \<times> 'z world" where
  "new_StoragePool e w =
     (next_ref w,
      w\<lparr>heap := (heap w)(next_ref w :=
            \<lparr>sp_name = None, sp_serviceLevel = None, sp_capacityGib = None,
             sp_description = None, sp_labels = None, \<dots> = unset_fields e\<rparr>),
        next_ref := Suc (next_ref w)\<rparr>)"

definition ParseStoragePoolConfig ::
  "'z env \<Rightarrow> string option \<Rightarrow> string option \<Rightarrow> int option \<Rightarrow> string option \<Rightarrow>
   LabelsValue option \<Rightarrow> 'z world \<Rightarrow> ref \<times> 'z world" where
  "ParseStoragePoolConfig e name service_level capacity description labels w =
     (let (storage_pool, w0) = new_StoragePool e w;
          w1 = update_message storage_pool (\<lambda>m. m\<lparr>sp_name := name\<rparr>) w0;
          w2 = update_message storage_pool (\<lambda>m. m\<lparr>sp_serviceLevel := service_level\<rparr>) w1;
          w3 = update_message storage_pool (\<lambda>m. m\<lparr>sp_capacityGib := capacity\<rparr>) w2;
          w4 = update_message storage_pool (\<lambda>m. m\<lparr>sp_description := description\<rparr>) w3;
          w5 = update_message storage_pool (\<lambda>m. m\<lparr>sp_labels := labels\<rparr>) w4
      in (storage_pool, w5))"

text \<open>
  \<^verbatim>\<open>ParseUpdatedStoragePoolConfig(self, storagepool_config, capacity=None,
  description=None, labels=None)\<close> passes its arguments to the adapter by keyword.
\<close>

definition ParseUpdatedStoragePoolConfig ::
  "ref \<Rightarrow> int option \<Rightarrow> string option \<Rightarrow> LabelsValue option \<Rightarrow> 'z world \<Rightarrow> ref \<times> 'z world" where
  "ParseUpdatedStoragePoolConfig storagepool_config capacity description labels w =
     (let (storage_pool, w1) =
            Adapter_ParseUpdatedStoragePoolConfig storagepool_config description labels capacity w
      in (storage_pool, w1))"

subsection \<open>The operation waiter\<close>

text \<open>
  Modelled from the spec: \<^verbatim>\<open>waiter.WaitFor\<close> with its poller (not part of the sources
  at hand). Each round polls the status endpoint once, which is one call to the remote
  service. A done operation returns its payload, a failed one raises \<open>OperationError\<close>
  with the error detail and is not retried. A pending operation is retried after
  sleeping for the current interval, unless that sleep would exceed the maximum wait
  window, in which case \<open>TimeoutError\<close> is raised. The interval grows by the
  multiplier up to its ceiling. The loop state is the number of polls made, the current
  interval and the time elapsed. A wait that never returns is the value \<open>None\<close>.
\<close>

partial_function (option) WaitFor_loop ::
  "WaitConfig \<Rightarrow> (nat \<Rightarrow> OperationStatus) \<Rightarrow> string \<Rightarrow> nat \<Rightarrow> nat \<Rightarrow> nat \<Rightarrow> 'z world \<Rightarrow>
   ((error + Payload) \<times> 'z world) option" where
  "WaitFor_loop cfg poll operation k interval elapsed w =
     (case poll k of
        Done payload \<Rightarrow> Some (Inr payload, send (OperationsGetCall operation) w)
      | Failed err \<Rightarrow> Some (Inl (OperationError err), send (OperationsGetCall operation) w)
      | Pending \<Rightarrow>
          if max_wait_ms cfg < elapsed + interval
          then Some (Inl TimeoutError, send (OperationsGetCall operation) w)
          else WaitFor_loop cfg poll operation (Suc k)
                 (min (wait_ceiling_ms cfg) (interval * exponential_sleep_multiplier cfg))
                 (elapsed + interval)
                 (sleep interval (send (OperationsGetCall operation) w)))"

definition WaitFor ::
  "WaitConfig \<Rightarrow> (nat \<Rightarrow> OperationStatus) \<Rightarrow> string \<Rightarrow> string \<Rightarrow> 'z world \<Rightarrow>
   ((error + Payload) \<times> 'z world) option" where
  "WaitFor cfg poll operation message w =
     WaitFor_loop cfg poll operation 0 (sleep_ms cfg) 0 (w\<lparr>progress := progress w @ [message]\<rparr>)"

text \<open>\<^verbatim>\<open>WaitForOperation(self, operation_ref)\<close>\<close>

definition WaitForOperation ::
  "'z env \<Rightarrow> Resource \<Rightarrow> 'z world \<Rightarrow> ((error + Payload) \<times> 'z world) option" where
  "WaitForOperation e operation_ref w =
     WaitFor (wait_config e) (operations_Get e (RelativeName operation_ref))
       (RelativeName operation_ref)
       (''Waiting for ['' @ Name operation_ref @ ''] to finish'') w"

subsection \<open>Create, get, delete, update\<close>

text \<open>The value a synchronous call returns: the waiter's payload, or its error.\<close>

definition resolved ::
  "((error + Payload) \<times> 'z world) option \<Rightarrow> ((error + returned) \<times> 'z world) option" where
  "resolved r =
     (case r of
        None \<Rightarrow> None
      | Some (Inl err, w) \<Rightarrow> Some (Inl err, w)
      | Some (Inr payload, w) \<Rightarrow> Some (Inr (Resolved payload), w))"

definition CreateStoragePool ::
  "'z env \<Rightarrow> Resource \<Rightarrow> bool \<Rightarrow> ref \<Rightarrow> 'z world \<Rightarrow> ((error + returned) \<times> 'z world) option" where
  "CreateStoragePool e storagepool_ref async config w =
     (let request =
            \<lparr>create_parent = Parent_RelativeName storagepool_ref,
             create_storagePoolId = Name storagepool_ref,
             create_storagePool = heap w config\<rparr>;
          create_op = storagePools_Create e request;
          w1 = send (CreateCall request) w
      in if async then Some (Inr (Accepted create_op), w1)
         else (case ParseRelativeName e (op_name create_op) (OPERATIONS_COLLECTION e) of
                 Inl err \<Rightarrow> Some (Inl err, w1)
               | Inr operation_ref \<Rightarrow> resolved (WaitForOperation e operation_ref w1)))"

definition GetStoragePool ::
  "'z env \<Rightarrow> Resource \<Rightarrow> 'z world \<Rightarrow> 'z StoragePool_scheme \<times> 'z world" where
  "GetStoragePool e storagepool_ref w =
     (let request = \<lparr>get_name = RelativeName storagepool_ref\<rparr>
      in (storagePools_Get e request, send (GetCall request) w))"

definition DeleteStoragePool_request ::
  "'z env \<Rightarrow> bool \<Rightarrow> NetappProjectsLocationsStoragePoolsDeleteRequest \<Rightarrow> 'z world \<Rightarrow>
   ((error + returned) \<times> 'z world) option" where
  "DeleteStoragePool_request e async request w =
     (let delete_op = storagePools_Delete e request;
          w1 = send (DeleteCall request) w
      in if async then Some (Inr (Accepted delete_op), w1)
         else (case ParseRelativeName e (op_name delete_op) (OPERATIONS_COLLECTION e) of
                 Inl err \<Rightarrow> Some (Inl err, w1)
               | Inr operation_ref \<Rightarrow> resolved (WaitForOperation e operation_ref w1)))"

definition DeleteStoragePool ::
  "'z env \<Rightarrow> Resource \<Rightarrow> bool \<Rightarrow> 'z world \<Rightarrow> ((error + returned) \<times> 'z world) option" where
  "DeleteStoragePool e storagepool_ref async w =
     (let request = \<lparr>delete_name = RelativeName storagepool_ref\<rparr>
      in DeleteStoragePool_request e async request w)"

definition UpdateStoragePool ::
  "'z env \<Rightarrow> Resource \<Rightarrow> ref \<Rightarrow> string \<Rightarrow> bool \<Rightarrow> 'z world \<Rightarrow>
   ((error + returned) \<times> 'z world) option" where
  "UpdateStoragePool e storagepool_ref storagepool_config update_mask async w =
     (let (update_op, w1) =
            Adapter_UpdateStoragePool e storagepool_ref storagepool_config update_mask w
      in if async then Some (Inr (Accepted update_op), w1)
         else (case ParseRelativeName e (op_name update_op) (OPERATIONS_COLLECTION e) of
                 Inl err \<Rightarrow> Some (Inl err, w1)
               | Inr operation_ref \<Rightarrow> resolved (WaitForOperation e operation_ref w1)))"

subsection \<open>Listing\<close>

text \<open>
  Modelled from the spec: the pager \<^verbatim>\<open>list_pager.YieldFromList\<close> (not part of the
  verified sources), drained to the end as \<^verbatim>\<open>ListAlpha.Run\<close> does with \<^verbatim>\<open>list(...)\<close>.
  It requests pages from the service until no continuation token remains and applies
  the optional limit on the number of results: nothing is requested once the limit is
  used up. Each page is one call to the remote service. The page-size hint that the
  pager writes into the request is outside the model: the service answers by parent and
  token. A pager that never finishes is the value \<open>None\<close>.
\<close>

partial_function (option) YieldFromList ::
  "(NetappProjectsLocationsStoragePoolsListRequest \<Rightarrow> 'z ListStoragePoolsResponse) \<Rightarrow>
   NetappProjectsLocationsStoragePoolsListRequest \<Rightarrow> nat option \<Rightarrow>
   'z StoragePool_scheme list \<Rightarrow> 'z world \<Rightarrow> ('z StoragePool_scheme list \<times> 'z world) option" where
  "YieldFromList service request limit yielded w =
     (if limit = Some 0 then Some (yielded, w)
      else
        let response = service request;
            w1 = send (ListCall request) w;
            items = (case limit of None \<Rightarrow> storagePools response
                     | Some n \<Rightarrow> take n (storagePools response));
            remaining = (case limit of None \<Rightarrow> None | Some n \<Rightarrow> Some (n - length items))
        in if remaining = Some 0 then Some (yielded @ items, w1)
           else (case nextPageToken response of
                   None \<Rightarrow> Some (yielded @ items, w1)
                 | Some token \<Rightarrow>
                     if token = [] then Some (yielded @ items, w1)
                     else YieldFromList service (request\<lparr>list_pageToken := Some token\<rparr>)
                            remaining (yielded @ items) w1))"

text \<open>
  \<^verbatim>\<open>ListStoragePools(self, location_ref, limit=None)\<close>: one \<^verbatim>\<open>List\<close> request whose
  \<^verbatim>\<open>unreachable\<close> field is logged, then the pager on the same request.
\<close>

definition ListStoragePools ::
  "'z env \<Rightarrow> string \<Rightarrow> nat option \<Rightarrow> 'z world \<Rightarrow> ('z StoragePool_scheme list \<times> 'z world) option" where
  "ListStoragePools e location_ref limit w =
     (let request = \<lparr>list_parent = location_ref, list_pageToken = None\<rparr>;
          response = storagePools_List e request;
          w1 = send (ListCall request) w;
          w2 = foldl (\<lambda>w' location.
                 log_warning (''Location '' @ location @ '' may be unreachable.'') w')
                 w1 (unreachable response)
      in YieldFromList (storagePools_List e) request limit [] w2)"

text \<open>
  A paginated source: the pages a service holds for a request, each with its items and
  the unreachable locations it reports. The service serves the pages when it answers the
  request with the first page and, while pages remain, with a non-empty token under which
  it serves the rest.
\<close>

record 'z page =
  page_items :: "'z StoragePool_scheme list"
  page_unreachable :: "string list"

fun serves ::
  "(NetappProjectsLocationsStoragePoolsListRequest \<Rightarrow> 'z ListStoragePoolsResponse) \<Rightarrow>
   NetappProjectsLocationsStoragePoolsListRequest \<Rightarrow> 'z page list \<Rightarrow> bool" where
  "serves service request [] = False"
| "serves service request [p] =
     (storagePools (service request) = page_items p \<and>
      unreachable (service request) = page_unreachable p \<and>
      (nextPageToken (service request) = None \<or> nextPageToken (service request) = Some []))"
| "serves service request (p # q # ps) =
     (storagePools (service request) = page_items p \<and>
      unreachable (service request) = page_unreachable p \<and>
      nextPageToken (service request) \<noteq> None \<and>
      nextPageToken (service request) \<noteq> Some [] \<and>
      serves service (request\<lparr>list_pageToken := nextPageToken (service request)\<rparr>) (q # ps))"

text \<open>
  The number of pages that must be requested to collect \<open>n\<close> items: the least number of
  leading pages that hold \<open>n\<close> items between them (all pages when they hold fewer).
\<close>

fun pages_needed :: "nat \<Rightarrow> 'a list list \<Rightarrow> nat" where
  "pages_needed n [] = 0"
| "pages_needed n (p # ps) =
     (if n = 0 then 0 else Suc (pages_needed (n - length p) ps))"

definition list_calls :: "'z call list \<Rightarrow> nat" where
  "list_calls cs = length (filter (\<lambda>c. case c of ListCall r \<Rightarrow> True | _ \<Rightarrow> False) cs)"

definition poll_calls :: "'z call list \<Rightarrow> nat" where
  "poll_calls cs = length (filter (\<lambda>c. case c of OperationsGetCall n \<Rightarrow> True | _ \<Rightarrow> False) cs)"

text \<open>
  What the pager yields and how many pages it requests, on a source and a limit: all
  items in page order, cut at the limit; all pages, or as many as the limit needs.
\<close>

definition pager_items :: "nat option \<Rightarrow> 'z page list \<Rightarrow> 'z StoragePool_scheme list" where
  "pager_items limit pages =
     (case limit of None \<Rightarrow> concat (map page_items pages)
      | Some n \<Rightarrow> take n (concat (map page_items pages)))"

definition pager_requests :: "nat option \<Rightarrow> 'z page list \<Rightarrow> nat" where
  "pager_requests limit pages =
     (case limit of None \<Rightarrow> length pages | Some n \<Rightarrow> pages_needed n (map page_items pages))"

subsection \<open>Test doubles\<close>

text \<open>
  An in-memory service that holds a list of pages: the page at index \<open>i\<close> is served
  under the token of length \<open>i\<close> (the first page under no token), and a next token is
  given while pages remain.
\<close>

definition paged_service ::
  "'z page list \<Rightarrow> NetappProjectsLocationsStoragePoolsListRequest \<Rightarrow> 'z ListStoragePoolsResponse" where
  "paged_service pages request =
     (let i = (case list_pageToken request of None \<Rightarrow> 0 | Some token \<Rightarrow> length token)
      in \<lparr>storagePools = (if i < length pages then page_items (pages ! i) else []),
          nextPageToken = (if Suc i < length pages then Some (replicate (Suc i) CHR ''t'') else None),
          unreachable = (if i < length pages then page_unreachable (pages ! i) else [])\<rparr>)"

definition example_pool :: "string \<Rightarrow> StoragePool" where
  "example_pool n =
     \<lparr>sp_name = Some n, sp_serviceLevel = Some ''PREMIUM'', sp_capacityGib = Some 2048,
      sp_description = Some ''old'', sp_labels = Some [(''env'', ''prod'')]\<rparr>"

text \<open>Five pools on three pages; only the second page reports an unreachable location.\<close>

definition example_pages :: "unit page list" where
  "example_pages =
     [\<lparr>page_items = [example_pool ''a'', example_pool ''b''], page_unreachable = []\<rparr>,
      \<lparr>page_items = [example_pool ''c'', example_pool ''d''], page_unreachable = [''us-east1'']\<rparr>,
      \<lparr>page_items = [example_pool ''e''], page_unreachable = []\<rparr>]"

text \<open>The same pools, with an unreachable location reported on the first page.\<close>

definition example_pages_unreachable_first :: "unit page list" where
  "example_pages_unreachable_first =
     [\<lparr>page_items = [example_pool ''a'', example_pool ''b''], page_unreachable = [''us-east1'']\<rparr>,
      \<lparr>page_items = [example_pool ''c'', example_pool ''d'', example_pool ''e''],
       page_unreachable = []\<rparr>]"

definition example_world :: "unit world" where
  "example_world =
     \<lparr>heap = (\<lambda>r. example_pool ''pool1''), next_ref = 1, sent = [], warnings = [],
      progress = [], clock = 0\<rparr>"

definition example_ref :: Resource where
  "example_ref =
     \<lparr>RelativeName = ''projects/p/locations/l/storagePools/pool1'', Name = ''pool1'',
      Parent_RelativeName = ''projects/p/locations/l''\<rparr>"

definition example_operation_ref :: Resource where
  "example_operation_ref =
     \<lparr>RelativeName = ''projects/p/locations/l/operations/op1'', Name = ''op1'',
      Parent_RelativeName = ''projects/p/locations/l''\<rparr>"

text \<open>
  A service whose mutating requests are
  all accepted as operation \<open>op1\<close>, and whose operations are pending at the first two
  polls and done at the third.
\<close>

definition example_env :: "unit env" where
  "example_env =
     \<lparr>OPERATIONS_COLLECTION = ''netapp.projects.locations.operations'',
      ParseRelativeName = (\<lambda>n collection. Inr example_operation_ref),
      storagePools_Create = (\<lambda>request. \<lparr>op_name = ''projects/p/locations/l/operations/op1''\<rparr>),
      storagePools_Delete = (\<lambda>request. \<lparr>op_name = ''projects/p/locations/l/operations/op1''\<rparr>),
      storagePools_Get = (\<lambda>request. example_pool ''pool1''),
      storagePools_Patch = (\<lambda>request. \<lparr>op_name = ''projects/p/locations/l/operations/op1''\<rparr>),
      storagePools_List = paged_service example_pages,
      operations_Get = (\<lambda>n k. if k < 2 then Pending else Done ''pool1''),
      wait_config =
        \<lparr>max_wait_ms = 1800000, sleep_ms = 2000, exponential_sleep_multiplier = 2,
         wait_ceiling_ms = 180000\<rparr>,
      unset_fields = ()\<rparr>"

text \<open>
  The example service with operations that are done at the first poll, and the world
  after a mutating call and such a wait for its operation.
\<close>

definition example_env_done :: "unit env" where
  "example_env_done = example_env\<lparr>operations_Get := \<lambda>n k. Done ''pool1''\<rparr>"

definition example_waited :: "unit call \<Rightarrow> unit world" where
  "example_waited c =
     send (OperationsGetCall ''projects/p/locations/l/operations/op1'')
       ((send c example_world)\<lparr>progress := [''Waiting for [op1] to finish'']\<rparr>)"

section \<open>Properties\<close>

subsection \<open>Frame lemmas\<close>

lemma send_frame:
  "sent (send c w) = sent w @ [c]"
  "heap (send c w) = heap w"
  "next_ref (send c w) = next_ref w"
  "warnings (send c w) = warnings w"
  "progress (send c w) = progress w"
  "clock (send c w) = clock w"
  by (simp_all add: send_def)

lemma sleep_frame:
  "sent (sleep ms w) = sent w"
  "heap (sleep ms w) = heap w"
  "next_ref (sleep ms w) = next_ref w"
  "warnings (sleep ms w) = warnings w"
  "progress (sleep ms w) = progress w"
  "clock (sleep ms w) = clock w + ms"
  by (simp_all add: sleep_def)

lemma poll_calls_append:
  "poll_calls (cs @ ds) = poll_calls cs + poll_calls ds"
  by (simp add: poll_calls_def)

lemma poll_calls_simps:
  "poll_calls [] = 0"
  "poll_calls (OperationsGetCall n # cs) = Suc (poll_calls cs)"
  "poll_calls (CreateCall cr # cs) = poll_calls cs"
  "poll_calls (DeleteCall dr # cs) = poll_calls cs"
  "poll_calls (PatchCall pr # cs) = poll_calls cs"
  "poll_calls (GetCall gr # cs) = poll_calls cs"
  "poll_calls (ListCall lr # cs) = poll_calls cs"
  by (simp_all add: poll_calls_def)

lemma list_calls_append:
  "list_calls (cs @ ds) = list_calls cs + list_calls ds"
  by (simp add: list_calls_def)

lemma list_calls_simps:
  "list_calls [] = 0"
  "list_calls (ListCall lr # cs) = Suc (list_calls cs)"
  "list_calls (OperationsGetCall n # cs) = list_calls cs"
  "list_calls (CreateCall cr # cs) = list_calls cs"
  "list_calls (DeleteCall dr # cs) = list_calls cs"
  "list_calls (PatchCall pr # cs) = list_calls cs"
  "list_calls (GetCall gr # cs) = list_calls cs"
  by (simp_all add: list_calls_def)

lemma send_ListCall:
  "list_calls (sent (send (ListCall r) w)) = Suc (list_calls (sent w))"
  "warnings (send c w) = warnings w"
  by (simp_all add: send_def list_calls_append list_calls_simps)

subsection \<open>The message builders\<close>

text \<open>
  C9. For every stored message and every combination of optional capacity, description
  and labels, \<open>ParseUpdatedStoragePoolConfig\<close> returns the reference it was given; in
  the store, the message under that reference has exactly the arguments that are not
  \<open>None\<close> written into \<open>capacityGib\<close>, \<open>description\<close> and \<open>labels\<close>; every other
  field of it (those whose argument is \<open>None\<close>, the name, the service level and all
  further fields) is unchanged, as is every other message and the rest of the world.
\<close>

theorem ParseUpdatedStoragePoolConfig_writes_only_given:
  "(let (r, w') = ParseUpdatedStoragePoolConfig storagepool_config capacity description labels w
    in r = storagepool_config \<and>
       sp_capacityGib (heap w' r) =
         (case capacity of None \<Rightarrow> sp_capacityGib (heap w r) | Some c \<Rightarrow> Some c) \<and>
       sp_description (heap w' r) =
         (case description of None \<Rightarrow> sp_description (heap w r) | Some d \<Rightarrow> Some d) \<and>
       sp_labels (heap w' r) =
         (case labels of None \<Rightarrow> sp_labels (heap w r) | Some l \<Rightarrow> Some l) \<and>
       sp_name (heap w' r) = sp_name (heap w r) \<and>
       sp_serviceLevel (heap w' r) = sp_serviceLevel (heap w r) \<and>
       StoragePool.more (heap w' r) = StoragePool.more (heap w r) \<and>
       heap w' = (heap w)(r := heap w' r) \<and>
       next_ref w' = next_ref w \<and> sent w' = sent w \<and> warnings w' = warnings w \<and>
       progress w' = progress w \<and> clock w' = clock w)"
  by (cases capacity; cases description; cases labels)
     (simp_all add: ParseUpdatedStoragePoolConfig_def Adapter_ParseUpdatedStoragePoolConfig_def
        update_message_def)

text \<open>
  C10. For every combination of arguments, each possibly \<open>None\<close>,
  \<open>ParseStoragePoolConfig\<close> returns a reference that was not allocated before, and the
  message stored under it has \<open>name\<close>, \<open>serviceLevel\<close>, \<open>capacityGib\<close>,
  \<open>description\<close> and \<open>labels\<close> equal to the arguments, \<open>None\<close> included: the
  assignments are unconditional. No other message changes and nothing is sent.
\<close>

theorem ParseStoragePoolConfig_fresh_message:
  "(let (r, w') = ParseStoragePoolConfig e name service_level capacity description labels w
    in r = next_ref w \<and> next_ref w' = Suc (next_ref w) \<and>
       heap w' = (heap w)(r :=
         \<lparr>sp_name = name, sp_serviceLevel = service_level, sp_capacityGib = capacity,
          sp_description = description, sp_labels = labels, \<dots> = unset_fields e\<rparr>) \<and>
       sent w' = sent w \<and> warnings w' = warnings w \<and>
       progress w' = progress w \<and> clock w' = clock w)"
  by (simp add: ParseStoragePoolConfig_def new_StoragePool_def update_message_def)

subsection \<open>The update request\<close>

text \<open>
  C1, as the code has it. For every update in which only the description is given, the
  builder returns the message it was given, and the request that \<open>UpdateStoragePool\<close>
  sends carries that message with the description set to the new value and every other
  field, \<open>capacityGib\<close> and \<open>labels\<close> included, as it was before (unset only if it
  was unset); the \<open>updateMask\<close> of the request is the \<open>update_mask\<close> argument of the
  caller, whatever it names.
\<close>

theorem description_only_update_request:
  "(let (config, w1) = ParseUpdatedStoragePoolConfig storagepool_config None (Some d) None w;
        (update_op, w2) = Adapter_UpdateStoragePool e storagepool_ref config update_mask w1
    in config = storagepool_config \<and>
       update_op = storagePools_Patch e
         \<lparr>patch_storagePool = (heap w storagepool_config)\<lparr>sp_description := Some d\<rparr>,
          patch_name = RelativeName storagepool_ref, patch_updateMask = update_mask\<rparr> \<and>
       sent w2 = sent w @
         [PatchCall \<lparr>patch_storagePool = (heap w storagepool_config)\<lparr>sp_description := Some d\<rparr>,
            patch_name = RelativeName storagepool_ref, patch_updateMask = update_mask\<rparr>])"
  by (simp add: ParseUpdatedStoragePoolConfig_def Adapter_ParseUpdatedStoragePoolConfig_def
        Adapter_UpdateStoragePool_def update_message_def send_def Let_def)

text \<open>
  C1 as stated fails: on a message that has a capacity and labels, as a pool read from
  the service has, a description-only update sends a request whose message still has
  both set; and the mask of the request is what the caller passes, here \<open>capacityGib\<close>.
\<close>

theorem description_only_update_keeps_capacity:
  "(let (config, w1) =
          ParseUpdatedStoragePoolConfig 0 None (Some ''new'') None example_world;
        (update_op, w2) =
          Adapter_UpdateStoragePool example_env example_ref config ''capacityGib'' w1
    in sent w2) =
     [PatchCall
        \<lparr>patch_storagePool =
           \<lparr>sp_name = Some ''pool1'', sp_serviceLevel = Some ''PREMIUM'',
            sp_capacityGib = Some 2048, sp_description = Some ''new'',
            sp_labels = Some [(''env'', ''prod'')]\<rparr>,
         patch_name = ''projects/p/locations/l/storagePools/pool1'',
         patch_updateMask = ''capacityGib''\<rparr>]"
  by (simp add: ParseUpdatedStoragePoolConfig_def Adapter_ParseUpdatedStoragePoolConfig_def
        Adapter_UpdateStoragePool_def update_message_def send_def Let_def
        example_world_def example_pool_def example_ref_def)

subsection \<open>Construction\<close>



subsection \<open>Waiting for an operation\<close>

lemma WaitFor_loop_Done:
  "poll k = Done payload \<Longrightarrow>
   WaitFor_loop cfg poll operation k interval elapsed w =
     Some (Inr payload, send (OperationsGetCall operation) w)"
  by (subst WaitFor_loop.simps) simp

lemma WaitFor_loop_Failed:
  "poll k = Failed err \<Longrightarrow>
   WaitFor_loop cfg poll operation k interval elapsed w =
     Some (Inl (OperationError err), send (OperationsGetCall operation) w)"
  by (subst WaitFor_loop.simps) simp

lemma WaitFor_loop_timeout:
  "poll k = Pending \<Longrightarrow> max_wait_ms cfg < elapsed + interval \<Longrightarrow>
   WaitFor_loop cfg poll operation k interval elapsed w =
     Some (Inl TimeoutError, send (OperationsGetCall operation) w)"
  by (subst WaitFor_loop.simps) simp

lemma WaitFor_loop_retry:
  "poll k = Pending \<Longrightarrow> elapsed + interval \<le> max_wait_ms cfg \<Longrightarrow>
   WaitFor_loop cfg poll operation k interval elapsed w =
     WaitFor_loop cfg poll operation (Suc k)
       (min (wait_ceiling_ms cfg) (interval * exponential_sleep_multiplier cfg))
       (elapsed + interval)
       (sleep interval (send (OperationsGetCall operation) w))"
  by (subst WaitFor_loop.simps) simp

text \<open>
  C4. For every operation whose status is pending at the first and the second poll and
  done with payload \<open>P\<close> at the third, \<open>WaitForOperation\<close> returns \<open>P\<close> and polls the
  status endpoint exactly three times, given that the two sleeps between the polls fit
  in the maximum wait window the waiter is configured with.
\<close>

theorem WaitForOperation_pending_pending_done:
  assumes "operations_Get e (RelativeName operation_ref) 0 = Pending"
    and "operations_Get e (RelativeName operation_ref) 1 = Pending"
    and "operations_Get e (RelativeName operation_ref) 2 = Done payload"
    and "sleep_ms (wait_config e) +
           min (wait_ceiling_ms (wait_config e))
             (sleep_ms (wait_config e) * exponential_sleep_multiplier (wait_config e))
         \<le> max_wait_ms (wait_config e)"
  shows "\<exists>w'. WaitForOperation e operation_ref w = Some (Inr payload, w') \<and>
           sent w' = sent w @ replicate 3 (OperationsGetCall (RelativeName operation_ref)) \<and>
           poll_calls (sent w') = poll_calls (sent w) + 3"
proof -
  let ?poll = "operations_Get e (RelativeName operation_ref)"
  have p1: "?poll (Suc 0) = Pending" and p2: "?poll (Suc (Suc 0)) = Done payload"
    using assms(2,3) by (simp_all add: numeral_2_eq_2)
  have fits: "sleep_ms (wait_config e) \<le> max_wait_ms (wait_config e)"
    using assms(4) by simp
  show ?thesis
    unfolding WaitForOperation_def WaitFor_def
    using assms(1,4) p1 p2 fits
    by (simp add: WaitFor_loop_retry WaitFor_loop_Done send_frame sleep_frame
          poll_calls_append poll_calls_simps numeral_3_eq_3)
qed

theorem WaitForOperation_pending_pending_done_witness:
  "operations_Get example_env (RelativeName example_operation_ref) 0 = Pending \<and>
   operations_Get example_env (RelativeName example_operation_ref) 1 = Pending \<and>
   operations_Get example_env (RelativeName example_operation_ref) 2 = Done ''pool1'' \<and>
   sleep_ms (wait_config example_env) +
     min (wait_ceiling_ms (wait_config example_env))
       (sleep_ms (wait_config example_env) * exponential_sleep_multiplier (wait_config example_env))
     \<le> max_wait_ms (wait_config example_env) \<and>
   (\<exists>w'. WaitForOperation example_env example_operation_ref example_world =
            Some (Inr ''pool1'', w') \<and>
          sent w' = sent example_world @
            replicate 3 (OperationsGetCall (RelativeName example_operation_ref)) \<and>
          poll_calls (sent w') = poll_calls (sent example_world) + 3)"
  using WaitForOperation_pending_pending_done
    [of example_env example_operation_ref "''pool1''" example_world]
  by (simp add: example_env_def)

text \<open>
  C5. For every operation whose first status is failed with error detail \<open>E\<close>,
  \<open>WaitForOperation\<close> raises \<open>OperationError\<close> carrying \<open>E\<close> after exactly one poll:
  it neither sleeps nor polls again.
\<close>

theorem WaitForOperation_failed_first:
  assumes "operations_Get e (RelativeName operation_ref) 0 = Failed err"
  shows "\<exists>w'. WaitForOperation e operation_ref w = Some (Inl (OperationError err), w') \<and>
           sent w' = sent w @ [OperationsGetCall (RelativeName operation_ref)] \<and>
           poll_calls (sent w') = poll_calls (sent w) + 1 \<and>
           clock w' = clock w"
  unfolding WaitForOperation_def WaitFor_def
  using assms
  by (simp add: WaitFor_loop_Failed send_frame poll_calls_append poll_calls_simps)

theorem WaitForOperation_failed_first_witness:
  "operations_Get (example_env\<lparr>operations_Get := \<lambda>n k. Failed ''quota exceeded''\<rparr>)
     (RelativeName example_operation_ref) 0 = Failed ''quota exceeded'' \<and>
   (\<exists>w'. WaitForOperation (example_env\<lparr>operations_Get := \<lambda>n k. Failed ''quota exceeded''\<rparr>)
            example_operation_ref example_world =
            Some (Inl (OperationError ''quota exceeded''), w') \<and>
          sent w' = sent example_world @
            [OperationsGetCall (RelativeName example_operation_ref)] \<and>
          poll_calls (sent w') = poll_calls (sent example_world) + 1 \<and>
          clock w' = clock example_world)"
  using WaitForOperation_failed_first
    [of "example_env\<lparr>operations_Get := \<lambda>n k. Failed ''quota exceeded''\<rparr>"
        example_operation_ref "''quota exceeded''" example_world]
  by simp

text \<open>
  A wait on an operation that stays pending ends with \<open>TimeoutError\<close>, from any loop
  state with a positive interval, and sleeps no longer than what is left of the window.
\<close>

lemma WaitFor_loop_never_done:
  assumes pending: "\<forall>k. poll k = Pending"
    and mult: "0 < exponential_sleep_multiplier cfg"
    and ceil: "0 < wait_ceiling_ms cfg"
  shows "0 < interval \<Longrightarrow>
    \<exists>w'. WaitFor_loop cfg poll operation k interval elapsed w = Some (Inl TimeoutError, w') \<and>
         clock w' + elapsed \<le> clock w + max (max_wait_ms cfg) elapsed"
proof (induction "Suc (max_wait_ms cfg) - elapsed" arbitrary: k interval elapsed w rule: less_induct)
  case less
  show ?case
  proof (cases "max_wait_ms cfg < elapsed + interval")
    case True
    then show ?thesis
      using pending by (simp add: WaitFor_loop_timeout send_frame)
  next
    case False
    let ?i = "min (wait_ceiling_ms cfg) (interval * exponential_sleep_multiplier cfg)"
    let ?w = "sleep interval (send (OperationsGetCall operation) w)"
    have step: "WaitFor_loop cfg poll operation k interval elapsed w =
        WaitFor_loop cfg poll operation (Suc k) ?i (elapsed + interval) ?w"
      using False pending by (simp add: WaitFor_loop_retry)
    have smaller: "Suc (max_wait_ms cfg) - (elapsed + interval) < Suc (max_wait_ms cfg) - elapsed"
      using False less.prems by arith
    have pos: "0 < ?i"
      using less.prems mult ceil by simp
    from less.hyps [OF smaller pos, of "Suc k" ?w]
    obtain w' where w': "WaitFor_loop cfg poll operation (Suc k) ?i (elapsed + interval) ?w =
          Some (Inl TimeoutError, w')"
        "clock w' + (elapsed + interval) \<le> clock ?w + max (max_wait_ms cfg) (elapsed + interval)"
      by blast
    have "clock w' + elapsed \<le> clock w + max (max_wait_ms cfg) elapsed"
      using w'(2) False by (simp add: sleep_def send_frame)
    with step w'(1) show ?thesis by simp
  qed
qed

text \<open>
  C6. For every operation whose status never leaves pending, \<open>WaitForOperation\<close>
  returns, by raising \<open>TimeoutError\<close>, and has slept no longer than the maximum wait
  window by then. The sleep interval, its multiplier and its ceiling are positive.
\<close>

theorem WaitForOperation_never_done_times_out:
  assumes "\<forall>k. operations_Get e (RelativeName operation_ref) k = Pending"
    and "0 < sleep_ms (wait_config e)"
    and "0 < exponential_sleep_multiplier (wait_config e)"
    and "0 < wait_ceiling_ms (wait_config e)"
  shows "\<exists>w'. WaitForOperation e operation_ref w = Some (Inl TimeoutError, w') \<and>
           clock w' \<le> clock w + max_wait_ms (wait_config e)"
proof -
  let ?w = "w\<lparr>progress := progress w @ [''Waiting for ['' @ Name operation_ref @ ''] to finish'']\<rparr>"
  from WaitFor_loop_never_done [OF assms(1,3,4,2), of "RelativeName operation_ref" 0 0 ?w]
  obtain w' where "WaitFor_loop (wait_config e) (operations_Get e (RelativeName operation_ref))
        (RelativeName operation_ref) 0 (sleep_ms (wait_config e)) 0 ?w = Some (Inl TimeoutError, w')"
      and "clock w' + 0 \<le> clock ?w + max (max_wait_ms (wait_config e)) 0"
    by blast
  then show ?thesis
    by (simp add: WaitForOperation_def WaitFor_def)
qed

theorem WaitForOperation_never_done_witness:
  "(\<forall>k. operations_Get (example_env\<lparr>operations_Get := \<lambda>n k. Pending\<rparr>)
          (RelativeName example_operation_ref) k = Pending) \<and>
   0 < sleep_ms (wait_config (example_env\<lparr>operations_Get := \<lambda>n k. Pending\<rparr>)) \<and>
   0 < exponential_sleep_multiplier (wait_config (example_env\<lparr>operations_Get := \<lambda>n k. Pending\<rparr>)) \<and>
   0 < wait_ceiling_ms (wait_config (example_env\<lparr>operations_Get := \<lambda>n k. Pending\<rparr>)) \<and>
   (\<exists>w'. WaitForOperation (example_env\<lparr>operations_Get := \<lambda>n k. Pending\<rparr>)
            example_operation_ref example_world = Some (Inl TimeoutError, w') \<and>
          clock w' \<le> clock example_world + 1800000)"
  using WaitForOperation_never_done_times_out
    [of "example_env\<lparr>operations_Get := \<lambda>n k. Pending\<rparr>" example_operation_ref example_world]
  by (simp add: example_env_def)

subsection \<open>Asynchronous and synchronous calls\<close>

lemma resolved_payload:
  "resolved (Some (Inr payload, w)) = Some (Inr (Resolved payload), w)"
  by (simp add: resolved_def)

text \<open>
  C8. For create, delete and update alike: with the async flag set, the call sends its
  one request and returns the operation the service answered with, without polling or
  sleeping; with the flag not set, it parses the name of that operation, hands the
  reference to the waiter and, when the waiter resolves to a payload, returns that
  payload in the world the waiter left.
\<close>

theorem async_returns_operation_else_waits:
  "(let request = \<lparr>create_parent = Parent_RelativeName storagepool_ref,
                   create_storagePoolId = Name storagepool_ref,
                   create_storagePool = heap w config\<rparr>;
        create_op = storagePools_Create e request;
        w1 = send (CreateCall request) w
    in CreateStoragePool e storagepool_ref True config w = Some (Inr (Accepted create_op), w1) \<and>
       (ParseRelativeName e (op_name create_op) (OPERATIONS_COLLECTION e) = Inr c_ref \<longrightarrow>
        WaitForOperation e c_ref w1 = Some (Inr c_payload, c_w) \<longrightarrow>
        CreateStoragePool e storagepool_ref False config w = Some (Inr (Resolved c_payload), c_w))) \<and>
   (let request = \<lparr>delete_name = RelativeName storagepool_ref\<rparr>;
        delete_op = storagePools_Delete e request;
        w1 = send (DeleteCall request) w
    in DeleteStoragePool e storagepool_ref True w = Some (Inr (Accepted delete_op), w1) \<and>
       (ParseRelativeName e (op_name delete_op) (OPERATIONS_COLLECTION e) = Inr d_ref \<longrightarrow>
        WaitForOperation e d_ref w1 = Some (Inr d_payload, d_w) \<longrightarrow>
        DeleteStoragePool e storagepool_ref False w = Some (Inr (Resolved d_payload), d_w))) \<and>
   (let request = \<lparr>patch_storagePool = heap w config,
                   patch_name = RelativeName storagepool_ref,
                   patch_updateMask = update_mask\<rparr>;
        update_op = storagePools_Patch e request;
        w1 = send (PatchCall request) w
    in UpdateStoragePool e storagepool_ref config update_mask True w =
         Some (Inr (Accepted update_op), w1) \<and>
       (ParseRelativeName e (op_name update_op) (OPERATIONS_COLLECTION e) = Inr u_ref \<longrightarrow>
        WaitForOperation e u_ref w1 = Some (Inr u_payload, u_w) \<longrightarrow>
        UpdateStoragePool e storagepool_ref config update_mask False w =
          Some (Inr (Resolved u_payload), u_w)))"
  by (simp add: CreateStoragePool_def DeleteStoragePool_def DeleteStoragePool_request_def
        UpdateStoragePool_def Adapter_UpdateStoragePool_def Let_def resolved_payload)

lemma example_wait:
  "WaitForOperation example_env_done example_operation_ref (send c example_world) =
     Some (Inr ''pool1'', example_waited c)"
  by (simp add: WaitForOperation_def WaitFor_def WaitFor_loop_Done example_env_done_def
        example_env_def example_operation_ref_def example_waited_def example_world_def send_def)

theorem async_returns_operation_else_waits_witness:
  "(let request = \<lparr>create_parent = Parent_RelativeName example_ref,
                   create_storagePoolId = Name example_ref,
                   create_storagePool = heap example_world 0\<rparr>;
        create_op = storagePools_Create example_env_done request;
        w1 = send (CreateCall request) example_world
    in CreateStoragePool example_env_done example_ref True 0 example_world =
         Some (Inr (Accepted create_op), w1) \<and>
       ParseRelativeName example_env_done (op_name create_op)
         (OPERATIONS_COLLECTION example_env_done) = Inr example_operation_ref \<and>
       WaitForOperation example_env_done example_operation_ref w1 =
         Some (Inr ''pool1'', example_waited (CreateCall request)) \<and>
       CreateStoragePool example_env_done example_ref False 0 example_world =
         Some (Inr (Resolved ''pool1''), example_waited (CreateCall request))) \<and>
   (let request = \<lparr>delete_name = RelativeName example_ref\<rparr>;
        delete_op = storagePools_Delete example_env_done request;
        w1 = send (DeleteCall request) example_world
    in DeleteStoragePool example_env_done example_ref True example_world =
         Some (Inr (Accepted delete_op), w1) \<and>
       ParseRelativeName example_env_done (op_name delete_op)
         (OPERATIONS_COLLECTION example_env_done) = Inr example_operation_ref \<and>
       WaitForOperation example_env_done example_operation_ref w1 =
         Some (Inr ''pool1'', example_waited (DeleteCall request)) \<and>
       DeleteStoragePool example_env_done example_ref False example_world =
         Some (Inr (Resolved ''pool1''), example_waited (DeleteCall request))) \<and>
   (let request = \<lparr>patch_storagePool = heap example_world 0,
                   patch_name = RelativeName example_ref,
                   patch_updateMask = ''description''\<rparr>;
        update_op = storagePools_Patch example_env_done request;
        w1 = send (PatchCall request) example_world
    in UpdateStoragePool example_env_done example_ref 0 ''description'' True example_world =
         Some (Inr (Accepted update_op), w1) \<and>
       ParseRelativeName example_env_done (op_name update_op)
         (OPERATIONS_COLLECTION example_env_done) = Inr example_operation_ref \<and>
       WaitForOperation example_env_done example_operation_ref w1 =
         Some (Inr ''pool1'', example_waited (PatchCall request)) \<and>
       UpdateStoragePool example_env_done example_ref 0 ''description'' False example_world =
         Some (Inr (Resolved ''pool1''), example_waited (PatchCall request)))"
proof -
  have parse: "ParseRelativeName example_env_done n (OPERATIONS_COLLECTION example_env_done) =
      Inr example_operation_ref" for n
    by (simp add: example_env_done_def example_env_def)
  show ?thesis
    using async_returns_operation_else_waits
      [where e = example_env_done and storagepool_ref = example_ref and w = example_world
         and config = 0 and update_mask = "''description''"
         and c_ref = example_operation_ref and c_payload = "''pool1''"
         and c_w = "example_waited (CreateCall
             \<lparr>create_parent = Parent_RelativeName example_ref,
              create_storagePoolId = Name example_ref,
              create_storagePool = heap example_world 0\<rparr>)"
         and d_ref = example_operation_ref and d_payload = "''pool1''"
         and d_w = "example_waited (DeleteCall \<lparr>delete_name = RelativeName example_ref\<rparr>)"
         and u_ref = example_operation_ref and u_payload = "''pool1''"
         and u_w = "example_waited (PatchCall
             \<lparr>patch_storagePool = heap example_world 0,
              patch_name = RelativeName example_ref,
              patch_updateMask = ''description''\<rparr>)"]
    by (simp add: Let_def parse example_wait)
qed

subsection \<open>Listing\<close>

lemma YieldFromList_limit_used_up:
  "YieldFromList service request (Some 0) yielded w = Some (yielded, w)"
  by (subst YieldFromList.simps) simp

lemma YieldFromList_last_page:
  assumes "limit \<noteq> Some 0"
    and "nextPageToken (service request) = None \<or> nextPageToken (service request) = Some []"
  shows "YieldFromList service request limit yielded w =
    Some (yielded @ (case limit of None \<Rightarrow> storagePools (service request)
                     | Some n \<Rightarrow> take n (storagePools (service request))),
          send (ListCall request) w)"
  using assms
  by (subst YieldFromList.simps) (auto simp: Let_def split: option.splits)

lemma YieldFromList_limit_reached:
  assumes "0 < n" and "n \<le> length (storagePools (service request))"
  shows "YieldFromList service request (Some n) yielded w =
    Some (yielded @ take n (storagePools (service request)), send (ListCall request) w)"
  using assms
  by (subst YieldFromList.simps) (simp add: Let_def)

lemma YieldFromList_next_page:
  assumes "nextPageToken (service request) = Some token" and "token \<noteq> []"
    and "limit = None \<or> (\<exists>n. limit = Some n \<and> length (storagePools (service request)) < n)"
  shows "YieldFromList service request limit yielded w =
    YieldFromList service (request\<lparr>list_pageToken := Some token\<rparr>)
      (case limit of None \<Rightarrow> None | Some n \<Rightarrow> Some (n - length (storagePools (service request))))
      (yielded @ storagePools (service request)) (send (ListCall request) w)"
  using assms
  by (subst YieldFromList.simps) (auto simp: Let_def)

lemma pages_needed_0 [simp]: "pages_needed 0 pss = 0"
  by (cases pss) simp_all

text \<open>\<open>pages_needed\<close> is the least number of leading pages that hold \<open>n\<close> items.\<close>

lemma pages_needed_least:
  "n \<le> length (concat (take k pss)) \<Longrightarrow> pages_needed n pss \<le> k"
proof (induction pss arbitrary: n k)
  case Nil
  then show ?case by simp
next
  case (Cons ps pss)
  show ?case
  proof (cases k)
    case 0
    with Cons.prems show ?thesis by simp
  next
    case (Suc j)
    with Cons.prems have "n - length ps \<le> length (concat (take j pss))" by simp
    from Cons.IH [OF this] Suc show ?thesis by simp
  qed
qed

lemma pages_needed_enough:
  "n \<le> length (concat pss) \<Longrightarrow> n \<le> length (concat (take (pages_needed n pss) pss))"
proof (induction pss arbitrary: n)
  case Nil
  then show ?case by simp
next
  case (Cons ps pss)
  then have "n - length ps \<le> length (concat pss)" by simp
  from Cons.IH [OF this] show ?case by (cases "n = 0") auto
qed

text \<open>
  On a source that the service serves, the pager returns: it yields the items in page
  order up to the limit, requests no more pages than the limit needs, and logs nothing.
\<close>

lemma YieldFromList_serves:
  "serves service request pages \<Longrightarrow>
   \<exists>w'. YieldFromList service request limit yielded w =
           Some (yielded @ pager_items limit pages, w') \<and>
         list_calls (sent w') = list_calls (sent w) + pager_requests limit pages \<and>
         warnings w' = warnings w"
proof (induction pages arbitrary: request limit yielded w)
  case Nil
  then show ?case by simp
next
  case (Cons p ps)
  show ?case
  proof (cases "limit = Some 0")
    case True
    then show ?thesis
      by (simp add: YieldFromList_limit_used_up pager_items_def pager_requests_def)
  next
    case not0: False
    show ?thesis
    proof (cases ps)
      case Nil
      with Cons.prems have last:
        "nextPageToken (service request) = None \<or> nextPageToken (service request) = Some []"
        and items: "storagePools (service request) = page_items p"
        by simp_all
      show ?thesis
        unfolding YieldFromList_last_page [where service = service and request = request,
            OF not0 last]
        using items Nil not0
        by (cases limit) (simp_all add: pager_items_def pager_requests_def send_ListCall)
    next
      case (Cons q qs)
      with Cons.prems obtain token where
        tok: "nextPageToken (service request) = Some token" "token \<noteq> []"
        and items: "storagePools (service request) = page_items p"
        and rest: "serves service (request\<lparr>list_pageToken := Some token\<rparr>) ps"
        by auto
      show ?thesis
      proof (cases "\<exists>n. limit = Some n \<and> n \<le> length (page_items p)")
        case True
        then obtain n where n: "limit = Some n" "n \<le> length (page_items p)" by blast
        with not0 have "0 < n" by simp
        then show ?thesis
          using n items
          by (simp add: YieldFromList_limit_reached pager_items_def pager_requests_def
                send_ListCall)
      next
        case False
        then have more: "limit = None \<or>
            (\<exists>n. limit = Some n \<and> length (storagePools (service request)) < n)"
          using items by (cases limit) auto
        let ?limit = "case limit of None \<Rightarrow> None
                      | Some n \<Rightarrow> Some (n - length (storagePools (service request)))"
        from Cons.IH [OF rest, of ?limit "yielded @ storagePools (service request)"
            "send (ListCall request) w"]
        obtain w' where w':
          "YieldFromList service (request\<lparr>list_pageToken := Some token\<rparr>) ?limit
             (yielded @ storagePools (service request)) (send (ListCall request) w) =
           Some ((yielded @ storagePools (service request)) @ pager_items ?limit ps, w')"
          "list_calls (sent w') =
             list_calls (sent (send (ListCall request) w)) + pager_requests ?limit ps"
          "warnings w' = warnings (send (ListCall request) w)"
          by blast
        have "storagePools (service request) @ pager_items ?limit ps = pager_items limit (p # ps)"
          using more items by (cases limit) (auto simp: pager_items_def)
        moreover have "Suc (pager_requests ?limit ps) = pager_requests limit (p # ps)"
          using more items by (cases limit) (auto simp: pager_requests_def)
        ultimately show ?thesis
          using w' YieldFromList_next_page [where service = service and request = request, OF tok more, of yielded w]
          by (simp add: send_ListCall)
      qed
    qed
  qed
qed

lemma warnings_foldl_log_warning:
  "warnings (foldl (\<lambda>w' location. log_warning (f location) w') w locations) =
     warnings w @ map f locations"
  by (induction locations arbitrary: w) (simp_all add: log_warning_def)

lemma sent_foldl_log_warning:
  "sent (foldl (\<lambda>w' location. log_warning (f location) w') w locations) = sent w"
  by (induction locations arbitrary: w) (simp_all add: log_warning_def)

lemma ListStoragePools_serves:
  assumes "serves (storagePools_List e) \<lparr>list_parent = location_ref, list_pageToken = None\<rparr>
             (p # ps)"
  shows "\<exists>w'. ListStoragePools e location_ref limit w = Some (pager_items limit (p # ps), w') \<and>
           list_calls (sent w') = list_calls (sent w) + 1 + pager_requests limit (p # ps) \<and>
           warnings w' = warnings w @
             map (\<lambda>location. ''Location '' @ location @ '' may be unreachable.'')
               (page_unreachable p)"
proof -
  let ?request = "\<lparr>list_parent = location_ref, list_pageToken = None\<rparr>"
  let ?w2 = "foldl (\<lambda>w' location.
                 log_warning (''Location '' @ location @ '' may be unreachable.'') w')
               (send (ListCall ?request) w) (unreachable (storagePools_List e ?request))"
  have first: "unreachable (storagePools_List e ?request) = page_unreachable p"
    using assms by (cases ps) simp_all
  from YieldFromList_serves [OF assms, of limit "[]" ?w2]
  obtain w' where w':
    "YieldFromList (storagePools_List e) ?request limit [] ?w2 =
       Some ([] @ pager_items limit (p # ps), w')"
    "list_calls (sent w') = list_calls (sent ?w2) + pager_requests limit (p # ps)"
    "warnings w' = warnings ?w2"
    by blast
  have "ListStoragePools e location_ref limit w =
      YieldFromList (storagePools_List e) ?request limit [] ?w2"
    by (simp add: ListStoragePools_def Let_def)
  with w' first show ?thesis
    by (simp add: warnings_foldl_log_warning sent_foldl_log_warning send_ListCall)
qed

lemma example_pages_served:
  "serves (paged_service example_pages) \<lparr>list_parent = l, list_pageToken = None\<rparr> example_pages"
  by (simp add: example_pages_def paged_service_def)

lemma example_pages_unreachable_first_served:
  "serves (paged_service example_pages_unreachable_first)
     \<lparr>list_parent = l, list_pageToken = None\<rparr> example_pages_unreachable_first"
  by (simp add: example_pages_unreachable_first_def paged_service_def)

text \<open>
  C2, as the code has it. For every listing with limit 2 over a paginated source that
  holds 5 items, \<open>ListStoragePools\<close> yields exactly 2 items, the first two of the
  source, and sends one \<open>List\<close> request of its own, for the unreachable locations,
  before the pager's requests, which are as many as the limit needs and no more.
\<close>

theorem ListStoragePools_limit_2_of_5:
  assumes "serves (storagePools_List e) \<lparr>list_parent = location_ref, list_pageToken = None\<rparr>
             pages"
    and "length (concat (map page_items pages)) = 5"
  shows "\<exists>w'. ListStoragePools e location_ref (Some 2) w =
               Some (take 2 (concat (map page_items pages)), w') \<and>
           length (take 2 (concat (map page_items pages))) = 2 \<and>
           list_calls (sent w') =
             list_calls (sent w) + 1 + pages_needed 2 (map page_items pages)"
proof -
  from assms(1) obtain p ps where pages: "pages = p # ps"
    by (cases pages) simp_all
  from ListStoragePools_serves [OF assms(1) [unfolded pages], of "Some 2" w, folded pages]
  obtain w' where
    "ListStoragePools e location_ref (Some 2) w = Some (pager_items (Some 2) pages, w')"
    "list_calls (sent w') = list_calls (sent w) + 1 + pager_requests (Some 2) pages"
    by blast
  moreover have "length (take 2 (concat (map page_items pages))) = 2"
    using assms(2) by simp
  ultimately show ?thesis
    by (simp add: pager_items_def pager_requests_def)
qed

theorem ListStoragePools_limit_2_of_5_witness:
  "serves (storagePools_List example_env)
     \<lparr>list_parent = ''projects/p/locations/-'', list_pageToken = None\<rparr> example_pages \<and>
   length (concat (map page_items example_pages)) = 5 \<and>
   (\<exists>w'. ListStoragePools example_env ''projects/p/locations/-'' (Some 2) example_world =
            Some (take 2 (concat (map page_items example_pages)), w') \<and>
          length (take 2 (concat (map page_items example_pages))) = 2 \<and>
          list_calls (sent w') =
            list_calls (sent example_world) + 1 + pages_needed 2 (map page_items example_pages))"
proof -
  have served: "serves (storagePools_List example_env)
      \<lparr>list_parent = ''projects/p/locations/-'', list_pageToken = None\<rparr> example_pages"
    by (simp add: example_env_def example_pages_served)
  have five: "length (concat (map page_items example_pages)) = 5"
    by (simp add: example_pages_def)
  from ListStoragePools_limit_2_of_5 [OF served five, of example_world] served five
  show ?thesis by simp
qed

text \<open>
  C2 as stated fails: where the first page holds two items one page request satisfies
  the limit, and the listing sends two.
\<close>

theorem ListStoragePools_limit_2_extra_request:
  "map_option fst (ListStoragePools example_env ''projects/p/locations/-'' (Some 2) example_world)
     = Some [example_pool ''a'', example_pool ''b''] \<and>
   map_option (\<lambda>r. list_calls (sent (snd r)))
     (ListStoragePools example_env ''projects/p/locations/-'' (Some 2) example_world) = Some 2 \<and>
   pages_needed 2 (map page_items example_pages) = 1"
proof -
  have served: "serves (storagePools_List example_env)
      \<lparr>list_parent = ''projects/p/locations/-'', list_pageToken = None\<rparr> example_pages"
    by (simp add: example_env_def example_pages_served)
  from ListStoragePools_serves [OF served [unfolded example_pages_def], of "Some 2" example_world,
      folded example_pages_def]
  obtain w' where
    "ListStoragePools example_env ''projects/p/locations/-'' (Some 2) example_world =
       Some (pager_items (Some 2) example_pages, w')"
    "list_calls (sent w') =
       list_calls (sent example_world) + 1 + pager_requests (Some 2) example_pages"
    by blast
  then show ?thesis
    by (simp add: pager_items_def pager_requests_def example_pages_def example_world_def
          list_calls_simps)
qed

text \<open>
  C3, as the code has it. For every listing without a limit over a paginated source,
  \<open>ListStoragePools\<close> returns, yields the items of all pages, and logs exactly one
  warning for each unreachable location in the response to its first request, in the
  order of the response; what later pages report as unreachable is not logged.
\<close>

theorem ListStoragePools_warns_first_response:
  assumes "serves (storagePools_List e) \<lparr>list_parent = location_ref, list_pageToken = None\<rparr>
             (p # ps)"
  shows "\<exists>w'. ListStoragePools e location_ref None w =
               Some (concat (map page_items (p # ps)), w') \<and>
           warnings w' = warnings w @
             map (\<lambda>location. ''Location '' @ location @ '' may be unreachable.'')
               (page_unreachable p)"
  using ListStoragePools_serves [OF assms, of None w]
  by (auto simp: pager_items_def)

theorem ListStoragePools_warns_first_response_witness:
  "serves (storagePools_List (example_env\<lparr>storagePools_List :=
       paged_service example_pages_unreachable_first\<rparr>))
     \<lparr>list_parent = ''projects/p/locations/-'', list_pageToken = None\<rparr>
     (\<lparr>page_items = [example_pool ''a'', example_pool ''b''],
       page_unreachable = [''us-east1'']\<rparr> #
      [\<lparr>page_items = [example_pool ''c'', example_pool ''d'', example_pool ''e''],
        page_unreachable = []\<rparr>]) \<and>
   (\<exists>w'. ListStoragePools
            (example_env\<lparr>storagePools_List := paged_service example_pages_unreachable_first\<rparr>)
            ''projects/p/locations/-'' None example_world =
            Some (map example_pool [''a'', ''b'', ''c'', ''d'', ''e''], w') \<and>
          warnings w' = [''Location us-east1 may be unreachable.''])"
proof -
  have served: "serves (storagePools_List (example_env\<lparr>storagePools_List :=
       paged_service example_pages_unreachable_first\<rparr>))
     \<lparr>list_parent = ''projects/p/locations/-'', list_pageToken = None\<rparr>
     (\<lparr>page_items = [example_pool ''a'', example_pool ''b''],
       page_unreachable = [''us-east1'']\<rparr> #
      [\<lparr>page_items = [example_pool ''c'', example_pool ''d'', example_pool ''e''],
        page_unreachable = []\<rparr>])"
    using example_pages_unreachable_first_served [of "''projects/p/locations/-''"]
    by (simp add: example_pages_unreachable_first_def)
  from ListStoragePools_warns_first_response [OF served, of example_world] served
  show ?thesis
    by (simp add: example_world_def)
qed

text \<open>
  C3 as stated fails: an unreachable location that the service reports on the second
  page only gets no warning, while all items are yielded.
\<close>

theorem ListStoragePools_unreachable_on_later_page:
  "map_option fst (ListStoragePools example_env ''projects/p/locations/-'' None example_world)
     = Some (map example_pool [''a'', ''b'', ''c'', ''d'', ''e'']) \<and>
   map_option (\<lambda>r. warnings (snd r))
     (ListStoragePools example_env ''projects/p/locations/-'' None example_world) = Some [] \<and>
   concat (map page_unreachable example_pages) = [''us-east1'']"
proof -
  have served: "serves (storagePools_List example_env)
      \<lparr>list_parent = ''projects/p/locations/-'', list_pageToken = None\<rparr> example_pages"
    by (simp add: example_env_def example_pages_served)
  from ListStoragePools_serves [OF served [unfolded example_pages_def], of None example_world,
      folded example_pages_def]
  obtain w' where
    "ListStoragePools example_env ''projects/p/locations/-'' None example_world =
       Some (pager_items None example_pages, w')"
    "warnings w' = warnings example_world"
    by auto
  then show ?thesis
    by (simp add: pager_items_def example_pages_def example_world_def)
qed

end
